theory Spec2Isabelle
  imports Main "HOL-Library.Word"
begin

section \<open>The renderer of \<^verbatim>\<open>renderer/render.go\<close>\<close>

text \<open>
  The file under verification is the orchestrator of a template renderer: it checks its own
  state, builds the function table, hands the text to the template engine for parsing and
  execution, and moves the result from and to files.

  The orchestrator is embedded function by function. Everything it calls outside of
  \<^verbatim>\<open>render.go\<close> (the configuration's own \<^verbatim>\<open>Validate\<close>, the generic helper table
  \<^verbatim>\<open>sprig.TxtFuncMap\<close>, the parser and evaluator of \<^verbatim>\<open>text/template\<close>, and the two
  functions of package \<^verbatim>\<open>files\<close>) is a parameter, so every theorem holds for any
  behaviour of these collaborators that returns: a collaborator is a total function, so a
  call that panics or never comes back (a template that calls \<^verbatim>\<open>render\<close> on itself
  without end) is outside the model. The \<^verbatim>\<open>logrus\<close> calls only write diagnostics and are
  left out. A Go result \<^verbatim>\<open>(string, error)\<close> is a pair of a string and an
  \<open>error option\<close>, with \<open>None\<close> for \<^verbatim>\<open>nil\<close>; both components are kept, so that a
  result carrying text next to an error is expressible.
\<close>

subsection \<open>Errors\<close>

text \<open>
  The error values the file creates or inspects: \<^verbatim>\<open>errors.New\<close> and \<^verbatim>\<open>errors.Errorf\<close>
  give an error that is its message, \<^verbatim>\<open>template.ExecError\<close> is the struct with the fields
  \<^verbatim>\<open>Name\<close> and \<^verbatim>\<open>Err\<close> that \<^verbatim>\<open>Execute\<close> tests for, and \<^verbatim>\<open>errors.Wrapf\<close> puts a message
  in front of a cause. Errors of the collaborators are values of the same type.
\<close>

datatype error =
    ErrorString string
  | ExecError string error
  | Wrapf error string

text \<open>
  The \<^verbatim>\<open>Error()\<close> method of the three shapes: an \<^verbatim>\<open>ExecError\<close> prints the error it holds,
  a wrapped error prints its message, a colon and a blank, and then its cause.
\<close>

fun Error :: "error \<Rightarrow> string" where
  "Error (ErrorString s) = s"
| "Error (ExecError name err) = Error err"
| "Error (Wrapf cause msg) = msg @ '': '' @ Error cause"

text \<open>The cause directly under a wrapper.\<close>

fun Cause :: "error \<Rightarrow> error option" where
  "Cause (Wrapf cause msg) = Some cause"
| "Cause (ExecError name err) = None"
| "Cause (ErrorString s) = None"

subsection \<open>Constants\<close>

definition MissingKeyInvalidOption :: string where
  "MissingKeyInvalidOption = ''missingkey=invalid''"

definition MissingKeyErrorOption :: string where
  "MissingKeyErrorOption = ''missingkey=error''"

definition LeftDelim :: string where
  "LeftDelim = ''{{''"

definition RightDelim :: string where
  "RightDelim = ''}}''"

text \<open>The apostrophe, for the quoted parts of the messages.\<close>

definition apostrophe :: string where
  "apostrophe = [CHR 0x27]"

text \<open>\<^verbatim>\<open>strings.Join\<close>: the elements with the separator between neighbours.\<close>

fun strings_Join :: "string list \<Rightarrow> string \<Rightarrow> string" where
  "strings_Join [] sep = []"
| "strings_Join [x] sep = x"
| "strings_Join (x # y # ys) sep = x @ sep @ strings_Join (y # ys) sep"

subsection \<open>The Renderer\<close>

text \<open>
  The struct \<^verbatim>\<open>Renderer\<close>. The configuration is a Go interface value: \<open>None\<close> is the
  \<^verbatim>\<open>nil\<close> interface, \<open>Some c\<close> holds an implementation \<open>c\<close>.
\<close>

record 'c Renderer =
  configuration :: "'c option"
  options :: "string list"
  leftDelim :: string
  rightDelim :: string

text \<open>
  \<^verbatim>\<open>New\<close> returns a pointer and \<^verbatim>\<open>Delim\<close> assigns through its receiver, so both work on
  a store of Renderers. An address is an index into the store; \<^verbatim>\<open>New\<close> allocates at the
  end. \<^verbatim>\<open>Delim\<close> on an address that holds no Renderer (the \<^verbatim>\<open>nil\<close> receiver) panics in
  Go: \<open>None\<close>.
\<close>

type_synonym ref = nat

type_synonym 'c store = "'c Renderer list"

definition New :: "'c option \<Rightarrow> string list \<Rightarrow> 'c store \<Rightarrow> ref \<times> 'c store" where
  "New conf opts h =
     (length h,
      h @ [\<lparr>configuration = conf, options = opts,
            leftDelim = LeftDelim, rightDelim = RightDelim\<rparr>])"

definition Delim :: "ref \<Rightarrow> string \<Rightarrow> string \<Rightarrow> 'c store \<Rightarrow> (ref \<times> 'c store) option" where
  "Delim r left right h =
     (if r < length h
      then Some (r, h[r := (h ! r)\<lparr>leftDelim := left, rightDelim := right\<rparr>])
      else None)"

text \<open>
  The other methods only read their receiver; they take the Renderer the pointer refers to.
\<close>

subsection \<open>Collaborators\<close>

text \<open>
  A value in the function table. The generic helpers are opaque (\<open>'g\<close>). The custom
  entries are the method values \<^verbatim>\<open>r.SimpleRender\<close> and \<^verbatim>\<open>r.ReadFile\<close>, bound to their
  receiver, and the package functions \<^verbatim>\<open>ToYaml\<close>, \<^verbatim>\<open>Ungzip\<close> and \<^verbatim>\<open>Gzip\<close>.
\<close>

datatype ('g, 'r) func =
    Generic 'g
  | Method_SimpleRender 'r
  | Method_ReadFile 'r
  | Func_ToYaml
  | Func_Ungzip
  | Func_Gzip

type_synonym ('g, 'c) FuncMap = "string \<rightharpoonup> ('g, 'c Renderer) func"

text \<open>\<^verbatim>\<open>os.FileMode\<close> is a \<^verbatim>\<open>uint32\<close>.\<close>

type_synonym FileMode = "32 word"

text \<open>
  What the file calls and does not define:
  \<^item> \<open>conf_Validate\<close>: the \<^verbatim>\<open>Validate\<close> method of the configuration;
  \<^item> \<open>sprig_TxtFuncMap\<close>: the table \<^verbatim>\<open>sprig.TxtFuncMap()\<close> returns;
  \<^item> \<open>template_Parse\<close>: the chain \<^verbatim>\<open>template.New(name).Delims(l, r).Funcs(f).Option(o...).Parse(text)\<close>
    as a function of the six values the file passes in, giving a parsed template \<open>'t\<close> or
    an error;
  \<^item> \<open>template_Execute\<close>: \<^verbatim>\<open>t.Execute(&buffer, data)\<close>, giving what it wrote to the buffer
    and its error; the buffer may hold text when the error is not \<^verbatim>\<open>nil\<close>;
  \<^item> \<open>files_ReadInput\<close> and \<open>files_WriteOutput\<close>: the two functions of package
    \<^verbatim>\<open>files\<close>, acting on the outside world \<open>'w\<close> (files, standard input and output).
\<close>

record ('c, 'g, 't, 'w) collaborators =
  conf_Validate :: "'c \<Rightarrow> error option"
  sprig_TxtFuncMap :: "string \<rightharpoonup> 'g"
  template_Parse :: "string \<Rightarrow> string \<Rightarrow> string \<Rightarrow> ('g, 'c) FuncMap \<Rightarrow> string list \<Rightarrow> string
                       \<Rightarrow> error + 't"
  template_Execute :: "'t \<Rightarrow> 'c option \<Rightarrow> string \<times> error option"
  files_ReadInput :: "string \<Rightarrow> 'w \<Rightarrow> (error + string) \<times> 'w"
  files_WriteOutput :: "string \<Rightarrow> string \<Rightarrow> FileMode \<Rightarrow> 'w \<Rightarrow> error option \<times> 'w"

subsection \<open>Validate\<close>

text \<open>
  The loop over the options: the first option that is neither literal ends it with an
  error, the two literals fall through to the next option.
\<close>

fun check_options :: "string list \<Rightarrow> error option" where
  "check_options [] = None"
| "check_options (o1 # os) =
     (if o1 = MissingKeyErrorOption then check_options os
      else if o1 = MissingKeyInvalidOption then check_options os
      else Some (ErrorString
        (''unexpected option: '' @ apostrophe @ o1 @ apostrophe @
         '', option must be in: '' @ apostrophe @
         strings_Join [MissingKeyInvalidOption, MissingKeyErrorOption] '', '' @
         apostrophe)))"

definition Validate :: "('c, 'g, 't, 'w) collaborators \<Rightarrow> 'c Renderer \<Rightarrow> error option" where
  "Validate d r =
     (case configuration r of
        None \<Rightarrow> Some (ErrorString ''unexpected 'nil' configuration'')
      | Some c \<Rightarrow>
          (case conf_Validate d c of
             Some err \<Rightarrow> Some err
           | None \<Rightarrow>
               if length (leftDelim r) = 0 then Some (ErrorString ''unexpected empty leftDelim'')
               else if length (rightDelim r) = 0
                 then Some (ErrorString ''unexpected empty rightDelim'')
               else check_options (options r)))"

subsection \<open>ExtraFunctions, Parse, Execute\<close>

text \<open>The generic table, then the five assignments in the order of the source.\<close>

definition ExtraFunctions :: "('c, 'g, 't, 'w) collaborators \<Rightarrow> 'c Renderer \<Rightarrow> ('g, 'c) FuncMap" where
  "ExtraFunctions d r =
     (let extraFunctions = map_option Generic \<circ> sprig_TxtFuncMap d;
          extraFunctions = extraFunctions(''render'' \<mapsto> Method_SimpleRender r);
          extraFunctions = extraFunctions(''readFile'' \<mapsto> Method_ReadFile r);
          extraFunctions = extraFunctions(''toYaml'' \<mapsto> Func_ToYaml);
          extraFunctions = extraFunctions(''ungzip'' \<mapsto> Func_Ungzip);
          extraFunctions = extraFunctions(''gzip'' \<mapsto> Func_Gzip)
      in extraFunctions)"

definition Parse :: "('c, 'g, 't, 'w) collaborators \<Rightarrow> 'c Renderer \<Rightarrow> string \<Rightarrow> string
    \<Rightarrow> ('g, 'c) FuncMap \<Rightarrow> error + 't" where
  "Parse d r templateName rawTemplate extraFunctions =
     template_Parse d templateName (leftDelim r) (rightDelim r) extraFunctions (options r)
       rawTemplate"

text \<open>
  \<^verbatim>\<open>Execute\<close> runs the template into a fresh buffer. An error that is an \<^verbatim>\<open>ExecError\<close> is
  wrapped with the name it carries, any other error is returned as it is; in both cases
  the string returned is empty, whatever the buffer holds.
\<close>

definition Execute :: "('c, 'g, 't, 'w) collaborators \<Rightarrow> 'c Renderer \<Rightarrow> 't \<Rightarrow> string \<times> error option" where
  "Execute d r t =
     (case template_Execute d t (configuration r) of
        (buffer, Some err) \<Rightarrow>
          (let retErr =
             (case err of
                ExecError name e \<Rightarrow>
                  Wrapf err (''Error evaluating the template named: '' @ apostrophe @ name @ apostrophe)
              | _ \<Rightarrow> err)
           in ([], Some retErr))
      | (buffer, None) \<Rightarrow> (buffer, None))"

subsection \<open>Render, SimpleRender, FileRender\<close>

definition Render :: "('c, 'g, 't, 'w) collaborators \<Rightarrow> 'c Renderer \<Rightarrow> string \<Rightarrow> string
    \<Rightarrow> string \<times> error option" where
  "Render d r templateName rawTemplate =
     (case Validate d r of
        Some err \<Rightarrow> ([], Some err)
      | None \<Rightarrow>
          (case Parse d r templateName rawTemplate (ExtraFunctions d r) of
             Inl err \<Rightarrow> ([], Some err)
           | Inr t \<Rightarrow>
               (case Execute d r t of
                  (out, Some err) \<Rightarrow> ([], Some err)
                | (out, None) \<Rightarrow> (out, None))))"

definition SimpleRender :: "('c, 'g, 't, 'w) collaborators \<Rightarrow> 'c Renderer \<Rightarrow> string
    \<Rightarrow> string \<times> error option" where
  "SimpleRender d r rawTemplate = Render d r ''nameless'' rawTemplate"

text \<open>
  \<^verbatim>\<open>FileRender\<close> returns its error and leaves the world as its last call to package
  \<^verbatim>\<open>files\<close> left it. The conversions between \<^verbatim>\<open>[]byte\<close> and \<^verbatim>\<open>string\<close> keep the bytes.
  The mode is the octal literal \<^verbatim>\<open>0644\<close>.
\<close>

definition FileRender :: "('c, 'g, 't, 'w) collaborators \<Rightarrow> 'c Renderer \<Rightarrow> string \<Rightarrow> string
    \<Rightarrow> 'w \<Rightarrow> error option \<times> 'w" where
  "FileRender d r inputPath outputPath w =
     (case files_ReadInput d inputPath w of
        (Inl err, w1) \<Rightarrow> (Some err, w1)
      | (Inr input, w1) \<Rightarrow>
          (let templateName = (if inputPath = [] then ''stdin'' else inputPath)
           in case Render d r templateName input of
                (result, Some err) \<Rightarrow> (Some err, w1)
              | (result, None) \<Rightarrow>
                  (case files_WriteOutput d outputPath result (6 * 8 ^ 2 + 4 * 8 + 4) w1 of
                     (Some err, w2) \<Rightarrow> (Some err, w2)
                   | (None, w2) \<Rightarrow> (None, w2))))"

subsection \<open>A concrete set of collaborators\<close>

text \<open>
  The closed examples below need collaborators that compute. The configuration is an
  association list of keys and values that is valid when it has no empty key. The engine
  is a table of the templates of the repository's command-line tests
  (\<^verbatim>\<open>TestEmpty\<close>, \<^verbatim>\<open>TestSimple\<close>, \<^verbatim>\<open>TestMissingKeyError\<close>), and of one template whose
  action is never closed; a parsed template is its name, its options and its text. A
  missing key under \<^verbatim>\<open>missingkey=error\<close> stops the evaluation with an \<^verbatim>\<open>ExecError\<close>,
  after the text in front of the action has reached the buffer.
\<close>

type_synonym example_conf = "(string \<times> string) list"

type_synonym example_template = "string \<times> string list \<times> string"

definition example_conf_Validate :: "example_conf \<Rightarrow> error option" where
  "example_conf_Validate c =
     (if [] \<in> set (map fst c) then Some (ErrorString ''empty key'') else None)"

definition example_Parse :: "string \<Rightarrow> string \<Rightarrow> string \<Rightarrow> (unit, example_conf) FuncMap
    \<Rightarrow> string list \<Rightarrow> string \<Rightarrow> error + example_template" where
  "example_Parse name left right funcs opts text =
     (if text = left
      then Inl (ErrorString (''template: '' @ name @ '':1: unclosed action''))
      else Inr (name, opts, text))"

definition missing_key_message :: "string \<Rightarrow> string" where
  "missing_key_message name =
     ''template: '' @ name @ '':1:3: executing \"'' @ name @
     ''\" at <.missing>: map has no entry for key \"missing\"''"

definition example_Execute :: "example_template \<Rightarrow> example_conf option \<Rightarrow> string \<times> error option" where
  "example_Execute t data =
     (case t of (name, opts, text) \<Rightarrow>
        if text = ''test-{{ .something }}-test''
        then (case map_of (case data of None \<Rightarrow> [] | Some c \<Rightarrow> c) ''something'' of
                Some v \<Rightarrow> (''test-'' @ v @ ''-test'', None)
              | None \<Rightarrow>
                  if MissingKeyErrorOption \<in> set opts
                  then (''test-'', Some (ExecError name (ErrorString (missing_key_message name))))
                  else (''test-<no value>-test'', None))
        else if text = ''{{ .missing }}''
        then (if MissingKeyErrorOption \<in> set opts
              then ([], Some (ExecError name (ErrorString (missing_key_message name))))
              else (''<no value>'', None))
        else (text, None))"

text \<open>
  Modelled from the spec: package \<^verbatim>\<open>files\<close> is not part of the sources at hand. An empty
  input path reads the standard input, an empty output path writes to the standard
  output, any other path reads that file or creates it, or overwrites it, with the given
  contents and mode. Reading a file that does not exist and writing to a path that ends
  in a slash fail.
\<close>

record world =
  stdin :: string
  stdout :: string
  disk :: "(string \<times> string \<times> FileMode) list"

definition example_ReadInput :: "string \<Rightarrow> world \<Rightarrow> (error + string) \<times> world" where
  "example_ReadInput path w =
     (if path = [] then (Inr (stdin w), w\<lparr>stdin := []\<rparr>)
      else case map_of (disk w) path of
             None \<Rightarrow> (Inl (ErrorString (''open '' @ path @ '': no such file or directory'')), w)
           | Some (contents, mode) \<Rightarrow> (Inr contents, w))"

definition example_WriteOutput :: "string \<Rightarrow> string \<Rightarrow> FileMode \<Rightarrow> world \<Rightarrow> error option \<times> world" where
  "example_WriteOutput path bytes mode w =
     (if path = [] then (None, w\<lparr>stdout := stdout w @ bytes\<rparr>)
      else if last path = CHR ''/''
      then (Some (ErrorString (''open '' @ path @ '': is a directory'')), w)
      else (None, w\<lparr>disk := (path, bytes, mode) # disk w\<rparr>))"

definition example :: "(example_conf, unit, example_template, world) collaborators" where
  "example =
     \<lparr>conf_Validate = example_conf_Validate,
      sprig_TxtFuncMap = [''upper'' \<mapsto> (), ''gzip'' \<mapsto> ()],
      template_Parse = example_Parse,
      template_Execute = example_Execute,
      files_ReadInput = example_ReadInput,
      files_WriteOutput = example_WriteOutput\<rparr>"

definition example_renderer :: "string list \<Rightarrow> example_conf Renderer" where
  "example_renderer opts = snd (New (Some [(''something'', ''test'')]) opts []) ! 0"

section \<open>Properties\<close>

subsection \<open>The option loop\<close>

lemma check_options_None_iff:
  "check_options os = None \<longleftrightarrow> set os \<subseteq> {MissingKeyErrorOption, MissingKeyInvalidOption}"
  by (induction os) auto

lemma check_options_find:
  "check_options os =
     (case find (\<lambda>o1. o1 \<noteq> MissingKeyErrorOption \<and> o1 \<noteq> MissingKeyInvalidOption) os of
        None \<Rightarrow> None
      | Some o1 \<Rightarrow> Some (ErrorString
          (''unexpected option: '' @ apostrophe @ o1 @ apostrophe @
           '', option must be in: 'missingkey=invalid, missingkey=error'' @ apostrophe)))"
  by (induction os) (auto simp: MissingKeyErrorOption_def MissingKeyInvalidOption_def apostrophe_def)

subsection \<open>Validate\<close>

text \<open>
  C2. \<^verbatim>\<open>Validate\<close> returns an error exactly when the configuration is \<^verbatim>\<open>nil\<close>, or the
  configuration's own \<^verbatim>\<open>Validate\<close> fails, or the left delimiter is empty, or the right
  delimiter is empty, or some option is neither \<^verbatim>\<open>missingkey=error\<close> nor
  \<^verbatim>\<open>missingkey=invalid\<close>. The checks are made in this order and the first one that fails
  gives the error returned; among the options it is the first unrecognised one.
\<close>

theorem Validate_fails_iff:
  "(Validate d r \<noteq> None \<longleftrightarrow>
      configuration r = None
      \<or> (\<exists>c. configuration r = Some c \<and> conf_Validate d c \<noteq> None)
      \<or> leftDelim r = []
      \<or> rightDelim r = []
      \<or> (\<exists>o1 \<in> set (options r). o1 \<noteq> ''missingkey=error'' \<and> o1 \<noteq> ''missingkey=invalid''))
   \<and> Validate d r =
       (case configuration r of
          None \<Rightarrow> Some (ErrorString ''unexpected 'nil' configuration'')
        | Some c \<Rightarrow>
            (case conf_Validate d c of
               Some err \<Rightarrow> Some err
             | None \<Rightarrow>
                 if leftDelim r = [] then Some (ErrorString ''unexpected empty leftDelim'')
                 else if rightDelim r = [] then Some (ErrorString ''unexpected empty rightDelim'')
                 else (case find (\<lambda>o1. o1 \<noteq> ''missingkey=error'' \<and> o1 \<noteq> ''missingkey=invalid'')
                              (options r) of
                         None \<Rightarrow> None
                       | Some o1 \<Rightarrow> Some (ErrorString
                           (''unexpected option: '' @ apostrophe @ o1 @ apostrophe @
                            '', option must be in: 'missingkey=invalid, missingkey=error'' @
                            apostrophe)))))"
proof (intro conjI)
  have opts: "check_options (options r) \<noteq> None \<longleftrightarrow>
      (\<exists>o1 \<in> set (options r). o1 \<noteq> ''missingkey=error'' \<and> o1 \<noteq> ''missingkey=invalid'')"
    using check_options_None_iff [of "options r"]
    by (auto simp: MissingKeyErrorOption_def MissingKeyInvalidOption_def)
  show "Validate d r \<noteq> None \<longleftrightarrow>
      configuration r = None
      \<or> (\<exists>c. configuration r = Some c \<and> conf_Validate d c \<noteq> None)
      \<or> leftDelim r = []
      \<or> rightDelim r = []
      \<or> (\<exists>o1 \<in> set (options r). o1 \<noteq> ''missingkey=error'' \<and> o1 \<noteq> ''missingkey=invalid'')"
    unfolding Validate_def using opts
    by (cases "configuration r"; cases "conf_Validate d (the (configuration r))") auto
next
  show "Validate d r =
       (case configuration r of
          None \<Rightarrow> Some (ErrorString ''unexpected 'nil' configuration'')
        | Some c \<Rightarrow>
            (case conf_Validate d c of
               Some err \<Rightarrow> Some err
             | None \<Rightarrow>
                 if leftDelim r = [] then Some (ErrorString ''unexpected empty leftDelim'')
                 else if rightDelim r = [] then Some (ErrorString ''unexpected empty rightDelim'')
                 else (case find (\<lambda>o1. o1 \<noteq> ''missingkey=error'' \<and> o1 \<noteq> ''missingkey=invalid'')
                              (options r) of
                         None \<Rightarrow> None
                       | Some o1 \<Rightarrow> Some (ErrorString
                           (''unexpected option: '' @ apostrophe @ o1 @ apostrophe @
                            '', option must be in: 'missingkey=invalid, missingkey=error'' @
                            apostrophe)))))"
    unfolding Validate_def
    by (simp add: check_options_find MissingKeyErrorOption_def MissingKeyInvalidOption_def
          split: option.splits)
qed

text \<open>The definitions that evaluate the concrete collaborators.\<close>

lemmas example_defs =
  example_def example_renderer_def New_def LeftDelim_def RightDelim_def
  example_conf_Validate_def example_Parse_def example_Execute_def missing_key_message_def
  example_ReadInput_def example_WriteOutput_def
  MissingKeyErrorOption_def MissingKeyInvalidOption_def apostrophe_def

theorem Validate_fails_iff_witness:
  "Validate example (example_renderer [''missingkey=error'', ''missingkey=zero'']) =
     Some (ErrorString
       (''unexpected option: 'missingkey=zero', option must be in: 'missingkey=invalid, missingkey=error'' @ [CHR 0x27]))
   \<and> Validate example (example_renderer [''missingkey=error'']) = None"
  using Validate_fails_iff [of example "example_renderer [''missingkey=error'', ''missingkey=zero'']"]
    Validate_fails_iff [of example "example_renderer [''missingkey=error'']"]
  by (simp add: example_defs)

text \<open>
  C3, as stated, asks \<^verbatim>\<open>Validate\<close> to reject a Renderer that \<^verbatim>\<open>New\<close> built with
  both literals; the loop looks at one option at a time and never compares two of them, so
  that Renderer is accepted.
\<close>

theorem Validate_both_options_counterexample:
  "\<not> (Validate example (example_renderer [''missingkey=error'', ''missingkey=invalid'']) \<noteq> None)"
  by (simp add: Validate_def example_defs)

text \<open>
  C3, amended. With a configuration that is present and valid and two non-empty
  delimiters, \<^verbatim>\<open>Validate\<close> accepts every list of options drawn from the two literals,
  in any order and number: the two literals may be supplied together.
\<close>

theorem Validate_accepts_recognized_options:
  assumes "configuration r = Some c" and "conf_Validate d c = None"
    and "leftDelim r \<noteq> []" and "rightDelim r \<noteq> []"
    and "set (options r) \<subseteq> {''missingkey=error'', ''missingkey=invalid''}"
  shows "Validate d r = None"
proof -
  have "check_options (options r) = None"
    using assms(5) check_options_None_iff [of "options r"]
    by (simp add: MissingKeyErrorOption_def MissingKeyInvalidOption_def)
  with assms(1-4) show ?thesis
    by (simp add: Validate_def)
qed

theorem Validate_accepts_recognized_options_witness:
  "Validate example
     \<lparr>configuration = Some [(''something'', ''test'')],
      options = [''missingkey=invalid'', ''missingkey=error'', ''missingkey=invalid''],
      leftDelim = ''<<'', rightDelim = ''>>''\<rparr> = None"
  by (rule Validate_accepts_recognized_options [where c = "[(''something'', ''test'')]"])
     (simp_all add: example_defs)

subsection \<open>New and Delim\<close>

text \<open>
  C9. \<^verbatim>\<open>New\<close> allocates a Renderer that holds the given configuration and options and
  the delimiters \<^verbatim>\<open>{{\<close> and \<^verbatim>\<open>}}\<close>, and leaves the Renderers already there as they are.
  \<^verbatim>\<open>Delim\<close> on a Renderer of the store succeeds for every pair of strings, empty ones
  included, returns the address it was given, sets both delimiters of that Renderer and
  changes nothing else; an empty delimiter is refused afterwards by \<^verbatim>\<open>Validate\<close>.
\<close>

theorem New_Delim:
  "(case New conf opts h of (p, h') \<Rightarrow>
      p < length h' \<and> length h' = Suc (length h) \<and> take (length h) h' = h
      \<and> configuration (h' ! p) = conf \<and> options (h' ! p) = opts
      \<and> leftDelim (h' ! p) = ''{{'' \<and> rightDelim (h' ! p) = ''}}'')
   \<and> (p < length s \<longrightarrow>
        (\<exists>s'. Delim p left right s = Some (p, s')
           \<and> length s' = length s
           \<and> leftDelim (s' ! p) = left \<and> rightDelim (s' ! p) = right
           \<and> configuration (s' ! p) = configuration (s ! p)
           \<and> options (s' ! p) = options (s ! p)
           \<and> (\<forall>q < length s. q \<noteq> p \<longrightarrow> s' ! q = s ! q)
           \<and> (left = [] \<or> right = [] \<longrightarrow> Validate d (s' ! p) \<noteq> None)))"
  by (auto simp: New_def Delim_def LeftDelim_def RightDelim_def Validate_def
        split: option.splits)

theorem New_Delim_witness:
  "(case New (Some [(''something'', ''test'')]) [''missingkey=error''] [] of (p, h) \<Rightarrow>
      p = 0
      \<and> h = [\<lparr>configuration = Some [(''something'', ''test'')], options = [''missingkey=error''],
               leftDelim = ''{{'', rightDelim = ''}}''\<rparr>]
      \<and> Delim p [] ''>>'' h =
          Some (0, [\<lparr>configuration = Some [(''something'', ''test'')],
                     options = [''missingkey=error''],
                     leftDelim = [], rightDelim = ''>>''\<rparr>])
      \<and> Validate example (snd (the (Delim p [] ''>>'' h)) ! p) =
          Some (ErrorString ''unexpected empty leftDelim''))"
  using New_Delim [where conf = "Some [(''something'', ''test'')]" and opts = "[''missingkey=error'']"
      and h = "[]" and p = 0
      and s = "snd (New (Some [(''something'', ''test'')]) [''missingkey=error''] [])"
      and left = "[]" and right = "''>>''" and d = example]
  by (simp add: New_def Delim_def Validate_def example_defs)

subsection \<open>SimpleRender\<close>

text \<open>
  C6. \<^verbatim>\<open>SimpleRender\<close> gives on every text what \<^verbatim>\<open>Render\<close> gives on the name
  \<^verbatim>\<open>nameless\<close> and that text, the string and the error alike.
\<close>

theorem SimpleRender_eq_Render:
  "SimpleRender d r text = Render d r ''nameless'' text"
  by (simp add: SimpleRender_def)

theorem SimpleRender_eq_Render_witness:
  "SimpleRender example (example_renderer []) ''test-{{ .something }}-test'' =
     (''test-test-test'', None)"
  using SimpleRender_eq_Render [of example "example_renderer []" "''test-{{ .something }}-test''"]
  by (simp add: Render_def Validate_def Parse_def Execute_def example_defs)

subsection \<open>ExtraFunctions\<close>

text \<open>
  C5. The table of \<^verbatim>\<open>ExtraFunctions\<close> maps \<^verbatim>\<open>render\<close> to the \<^verbatim>\<open>SimpleRender\<close> of the
  Renderer it was called on, \<^verbatim>\<open>readFile\<close>, \<^verbatim>\<open>toYaml\<close>, \<^verbatim>\<open>gzip\<close> and \<^verbatim>\<open>ungzip\<close> to
  the four other custom functions, whatever the generic table holds under these names,
  and every other name to what the generic table holds. Its names are those of the
  generic table and these five.
\<close>

theorem ExtraFunctions_table:
  "ExtraFunctions d r name =
     (if name = ''render'' then Some (Method_SimpleRender r)
      else if name = ''readFile'' then Some (Method_ReadFile r)
      else if name = ''toYaml'' then Some Func_ToYaml
      else if name = ''gzip'' then Some Func_Gzip
      else if name = ''ungzip'' then Some Func_Ungzip
      else map_option Generic (sprig_TxtFuncMap d name))
   \<and> dom (ExtraFunctions d r) =
       dom (sprig_TxtFuncMap d) \<union> {''render'', ''readFile'', ''toYaml'', ''gzip'', ''ungzip''}"
  by (auto simp: ExtraFunctions_def Let_def dom_def split: if_splits)

theorem ExtraFunctions_table_witness:
  "ExtraFunctions example (example_renderer []) ''gzip'' = Some Func_Gzip
   \<and> ExtraFunctions example (example_renderer []) ''upper'' = Some (Generic ())
   \<and> ExtraFunctions example (example_renderer []) ''render'' =
       Some (Method_SimpleRender (example_renderer []))
   \<and> ExtraFunctions example (example_renderer []) ''lower'' = None
   \<and> dom (ExtraFunctions example (example_renderer [])) =
       {''upper'', ''render'', ''readFile'', ''toYaml'', ''gzip'', ''ungzip''}"
  using ExtraFunctions_table [of example "example_renderer []" "''gzip''"]
    ExtraFunctions_table [of example "example_renderer []" "''upper''"]
    ExtraFunctions_table [of example "example_renderer []" "''render''"]
    ExtraFunctions_table [of example "example_renderer []" "''lower''"]
  by (auto simp: example_def)

subsection \<open>Render\<close>

text \<open>
  C1. \<^verbatim>\<open>Render\<close> returns the error of \<^verbatim>\<open>Validate\<close> when there is one; otherwise the
  error of \<^verbatim>\<open>Parse\<close>, called with the table of \<^verbatim>\<open>ExtraFunctions\<close>, when there is one;
  otherwise the error of \<^verbatim>\<open>Execute\<close> when there is one; otherwise the output of
  \<^verbatim>\<open>Execute\<close>. Whenever it returns an error, the string it returns is empty.
\<close>

theorem Render_pipeline:
  "(Validate d r = Some e \<longrightarrow> Render d r name text = ([], Some e))
   \<and> (Validate d r = None \<longrightarrow> Parse d r name text (ExtraFunctions d r) = Inl e
        \<longrightarrow> Render d r name text = ([], Some e))
   \<and> (Validate d r = None \<longrightarrow> Parse d r name text (ExtraFunctions d r) = Inr t
        \<longrightarrow> Execute d r t = (out, Some e)
        \<longrightarrow> Render d r name text = ([], Some e))
   \<and> (Validate d r = None \<longrightarrow> Parse d r name text (ExtraFunctions d r) = Inr t
        \<longrightarrow> Execute d r t = (out, None)
        \<longrightarrow> Render d r name text = (out, None))
   \<and> (snd (Render d r name text) \<noteq> None \<longrightarrow> fst (Render d r name text) = [])"
  by (auto simp: Render_def split: option.splits sum.splits prod.splits)

theorem Render_pipeline_witness:
  "Render example (example_renderer [''missingkey=zero'']) ''stdin'' ''{{'' =
     ([], Validate example (example_renderer [''missingkey=zero'']))
   \<and> Validate example (example_renderer [''missingkey=zero'']) \<noteq> None
   \<and> Render example (example_renderer []) ''stdin'' ''{{'' =
       ([], Some (ErrorString ''template: stdin:1: unclosed action''))
   \<and> Render example (example_renderer [''missingkey=error'']) ''stdin''
         ''test-{{ .something }}-test'' = (''test-test-test'', None)
   \<and> template_Execute example (''stdin'', [''missingkey=error''], ''test-{{ .something }}-test'') (Some [])
        = (''test-'', Some (ExecError ''stdin'' (ErrorString (missing_key_message ''stdin''))))
   \<and> Render example
         \<lparr>configuration = Some [], options = [''missingkey=error''],
          leftDelim = ''{{'', rightDelim = ''}}''\<rparr>
         ''stdin'' ''test-{{ .something }}-test'' =
       ([], Some (Wrapf (ExecError ''stdin'' (ErrorString (missing_key_message ''stdin'')))
                    (''Error evaluating the template named: 'stdin'' @ [CHR 0x27])))"
  using Render_pipeline [of example "example_renderer [''missingkey=zero'']"
      "the (Validate example (example_renderer [''missingkey=zero'']))" "''stdin''" "''{{''"]
    Render_pipeline [of example "example_renderer []"
      "ErrorString ''template: stdin:1: unclosed action''" "''stdin''" "''{{''"]
    Render_pipeline [of example "example_renderer [''missingkey=error'']" _ "''stdin''"
      "''test-{{ .something }}-test''"
      "(''stdin'', [''missingkey=error''], ''test-{{ .something }}-test'')" "''test-test-test''"]
    Render_pipeline [of example "\<lparr>configuration = Some [], options = [''missingkey=error''],
          leftDelim = ''{{'', rightDelim = ''}}''\<rparr>"
      "Wrapf (ExecError ''stdin'' (ErrorString (missing_key_message ''stdin'')))
                    (''Error evaluating the template named: 'stdin'' @ [CHR 0x27])"
      "''stdin''"
      "''test-{{ .something }}-test''"
      "(''stdin'', [''missingkey=error''], ''test-{{ .something }}-test'')" "[]"]
  by (simp add: Validate_def Parse_def Execute_def example_defs)

subsection \<open>Execute\<close>

text \<open>
  C4. When the engine reports no error, \<^verbatim>\<open>Execute\<close> returns the buffer. When the
  engine reports an \<^verbatim>\<open>ExecError\<close>, \<^verbatim>\<open>Execute\<close> returns an empty string and an error
  that wraps the engine's error whole: its cause is that error, and its message is
  \<^verbatim>\<open>Error evaluating the template named: '<name>'\<close>, a colon, and the message of the
  failure the \<^verbatim>\<open>ExecError\<close> holds, so whatever that message says about the missing key
  and its position is kept. Any other error is returned as it is.
\<close>

theorem Execute_result:
  "(template_Execute d t (configuration r) = (buffer, None)
      \<longrightarrow> Execute d r t = (buffer, None))
   \<and> (template_Execute d t (configuration r) = (buffer, Some (ExecError name e))
      \<longrightarrow> Execute d r t =
            ([], Some (Wrapf (ExecError name e)
                         (''Error evaluating the template named: '' @ [CHR 0x27] @ name @ [CHR 0x27])))
          \<and> Cause (the (snd (Execute d r t))) = Some (ExecError name e)
          \<and> Error (the (snd (Execute d r t))) =
              ''Error evaluating the template named: '' @ [CHR 0x27] @ name @ [CHR 0x27] @ '': '' @ Error e)
   \<and> (template_Execute d t (configuration r) = (buffer, Some err)
      \<longrightarrow> (\<forall>name e. err \<noteq> ExecError name e)
      \<longrightarrow> Execute d r t = ([], Some err))"
  by (auto simp: Execute_def apostrophe_def split: error.splits)

theorem Execute_result_witness:
  "Execute example (example_renderer []) (''stdin'', [], ''test-{{ .something }}-test'') =
     (''test-test-test'', None)
   \<and> fst (Execute example (example_renderer [])
            (''stdin'', [''missingkey=error''], ''{{ .missing }}'')) = []
   \<and> Error (the (snd (Execute example (example_renderer [])
                        (''stdin'', [''missingkey=error''], ''{{ .missing }}'')))) =
       ''Error evaluating the template named: 'stdin': template: stdin:1:3: executing \"stdin\" at <.missing>: map has no entry for key \"missing\"''"
  using Execute_result [of example "(''stdin'', [], ''test-{{ .something }}-test'')"
      "example_renderer []" "''test-test-test''"]
    Execute_result [of example "(''stdin'', [''missingkey=error''], ''{{ .missing }}'')"
      "example_renderer []" "[]" "''stdin''" "ErrorString (missing_key_message ''stdin'')"]
  by (simp add: example_defs)

subsection \<open>FileRender\<close>

text \<open>
  Rendering does not depend on the function that writes the output.
\<close>

lemma Validate_files_WriteOutput_update:
  "Validate (d\<lparr>files_WriteOutput := wr\<rparr>) r = Validate d r"
  by (simp add: Validate_def split: option.splits)

lemma ExtraFunctions_files_WriteOutput_update:
  "ExtraFunctions (d\<lparr>files_WriteOutput := wr\<rparr>) r = ExtraFunctions d r"
  by (simp add: ExtraFunctions_def)

lemma Parse_files_WriteOutput_update:
  "Parse (d\<lparr>files_WriteOutput := wr\<rparr>) r name text fs = Parse d r name text fs"
  by (simp add: Parse_def)

lemma Execute_files_WriteOutput_update:
  "Execute (d\<lparr>files_WriteOutput := wr\<rparr>) r t = Execute d r t"
  by (simp add: Execute_def)

lemma Render_files_WriteOutput_update:
  "Render (d\<lparr>files_WriteOutput := wr\<rparr>) r name text = Render d r name text"
  unfolding Render_def Validate_files_WriteOutput_update
    ExtraFunctions_files_WriteOutput_update Parse_files_WriteOutput_update
    Execute_files_WriteOutput_update
  by (rule refl)

text \<open>
  C7. A read error is returned as it is. Otherwise the text read is rendered under the
  name \<^verbatim>\<open>stdin\<close> when the input path is empty and under the input path when it is not,
  and when that succeeds the result of \<^verbatim>\<open>FileRender\<close> is that of \<^verbatim>\<open>WriteOutput\<close> on
  the output path, the rendered text and the mode 0644, whose nine low bits read
  \<^verbatim>\<open>rw-r--r--\<close> and which has no other bit set: a write error is returned as it is.
\<close>

theorem FileRender_result:
  "(files_ReadInput d inputPath w = (Inl e, w1)
      \<longrightarrow> FileRender d r inputPath outputPath w = (Some e, w1))
   \<and> (files_ReadInput d inputPath w = (Inr input, w1) \<longrightarrow> inputPath = []
      \<longrightarrow> Render d r ''stdin'' input = (result, None)
      \<longrightarrow> FileRender d r inputPath outputPath w = files_WriteOutput d outputPath result 420 w1)
   \<and> (files_ReadInput d inputPath w = (Inr input, w1) \<longrightarrow> inputPath \<noteq> []
      \<longrightarrow> Render d r inputPath input = (result, None)
      \<longrightarrow> FileRender d r inputPath outputPath w = files_WriteOutput d outputPath result 420 w1)
   \<and> map (bit (420 :: FileMode)) [8, 7, 6, 5, 4, 3, 2, 1, 0] =
        [True, True, False, True, False, False, True, False, False]
   \<and> drop_bit 9 (420 :: FileMode) = 0"
  by (auto simp: FileRender_def bit_numeral_rec drop_bit_eq_div split: option.splits prod.splits)

theorem FileRender_result_witness:
  "FileRender example (example_renderer []) [] ''out.yaml''
      \<lparr>stdin = ''test-{{ .something }}-test'', stdout = [], disk = []\<rparr> =
     (None, \<lparr>stdin = [], stdout = [], disk = [(''out.yaml'', ''test-test-test'', 420)]\<rparr>)
   \<and> FileRender example (example_renderer []) ''in.tmpl'' ''out/''
      \<lparr>stdin = [], stdout = [], disk = [(''in.tmpl'', ''{{ .missing }}'', 420)]\<rparr> =
     (Some (ErrorString ''open out/: is a directory''),
      \<lparr>stdin = [], stdout = [], disk = [(''in.tmpl'', ''{{ .missing }}'', 420)]\<rparr>)
   \<and> FileRender example (example_renderer []) ''in.tmpl'' []
      \<lparr>stdin = [], stdout = [], disk = []\<rparr> =
     (Some (ErrorString ''open in.tmpl: no such file or directory''),
      \<lparr>stdin = [], stdout = [], disk = []\<rparr>)"
  using FileRender_result [where d = example and inputPath = "[]" and outputPath = "''out.yaml''"
        and w = "\<lparr>stdin = ''test-{{ .something }}-test'', stdout = [], disk = []\<rparr>"
        and input = "''test-{{ .something }}-test''"
        and ?w1.0 = "\<lparr>stdin = [], stdout = [], disk = []\<rparr>"
        and r = "example_renderer []" and result = "''test-test-test''"]
    FileRender_result [where d = example and inputPath = "''in.tmpl''" and outputPath = "''out/''"
        and w = "\<lparr>stdin = [], stdout = [], disk = [(''in.tmpl'', ''{{ .missing }}'', 420)]\<rparr>"
        and input = "''{{ .missing }}''"
        and ?w1.0 = "\<lparr>stdin = [], stdout = [], disk = [(''in.tmpl'', ''{{ .missing }}'', 420)]\<rparr>"
        and r = "example_renderer []" and result = "''<no value>''"]
    FileRender_result [where d = example and inputPath = "''in.tmpl''" and outputPath = "[]"
        and w = "\<lparr>stdin = [], stdout = [], disk = []\<rparr>"
        and e = "ErrorString ''open in.tmpl: no such file or directory''"
        and ?w1.0 = "\<lparr>stdin = [], stdout = [], disk = []\<rparr>"
        and r = "example_renderer []"]
  by (simp add: Render_def Validate_def Parse_def Execute_def example_defs)

text \<open>
  C10. When reading the input fails, or rendering what was read fails, \<^verbatim>\<open>FileRender\<close>
  returns that error and leaves the world as \<^verbatim>\<open>ReadInput\<close> left it, whatever function
  stands for \<^verbatim>\<open>WriteOutput\<close>: the output is not written.
\<close>

theorem FileRender_failure_no_write:
  assumes "files_ReadInput d inputPath w = (Inl e, w1)
           \<or> (files_ReadInput d inputPath w = (Inr input, w1)
               \<and> snd (Render d r (if inputPath = [] then ''stdin'' else inputPath) input) = Some e)"
  shows "FileRender (d\<lparr>files_WriteOutput := wr\<rparr>) r inputPath outputPath w = (Some e, w1)"
  using assms
  by (auto simp: FileRender_def Render_files_WriteOutput_update split: prod.splits)

theorem FileRender_failure_no_write_witness:
  "FileRender
      (example\<lparr>files_WriteOutput := \<lambda>path bytes mode w. (None, w\<lparr>stdout := bytes, disk := []\<rparr>)\<rparr>)
      (example_renderer [''missingkey=error'']) ''in.tmpl'' ''in.tmpl''
      \<lparr>stdin = [], stdout = [], disk = [(''in.tmpl'', ''{{ .missing }}'', 420)]\<rparr> =
     (Some (Wrapf (ExecError ''in.tmpl'' (ErrorString (missing_key_message ''in.tmpl'')))
              (''Error evaluating the template named: 'in.tmpl'' @ [CHR 0x27])),
      \<lparr>stdin = [], stdout = [], disk = [(''in.tmpl'', ''{{ .missing }}'', 420)]\<rparr>)
   \<and> FileRender
      (example\<lparr>files_WriteOutput := \<lambda>path bytes mode w. (None, w\<lparr>stdout := bytes, disk := []\<rparr>)\<rparr>)
      (example_renderer []) ''in.tmpl'' ''out.yaml'' \<lparr>stdin = [], stdout = [], disk = []\<rparr> =
     (Some (ErrorString ''open in.tmpl: no such file or directory''),
      \<lparr>stdin = [], stdout = [], disk = []\<rparr>)"
proof -
  let ?w = "\<lparr>stdin = [], stdout = [], disk = [(''in.tmpl'', ''{{ .missing }}'', 420)]\<rparr>"
  let ?e = "Wrapf (ExecError ''in.tmpl'' (ErrorString (missing_key_message ''in.tmpl'')))
              (''Error evaluating the template named: 'in.tmpl'' @ [CHR 0x27])"
  have render_fails:
    "files_ReadInput example ''in.tmpl'' ?w = (Inl ?e, ?w)
     \<or> (files_ReadInput example ''in.tmpl'' ?w = (Inr ''{{ .missing }}'', ?w)
         \<and> snd (Render example (example_renderer [''missingkey=error''])
                  (if ''in.tmpl'' = [] then ''stdin'' else ''in.tmpl'') ''{{ .missing }}'') = Some ?e)"
    by (simp add: Render_def Validate_def Parse_def Execute_def example_defs)
  have read_fails:
    "files_ReadInput example ''in.tmpl'' \<lparr>stdin = [], stdout = [], disk = []\<rparr> =
       (Inl (ErrorString ''open in.tmpl: no such file or directory''),
        \<lparr>stdin = [], stdout = [], disk = []\<rparr>)
     \<or> (files_ReadInput example ''in.tmpl'' \<lparr>stdin = [], stdout = [], disk = []\<rparr> =
          (Inr [], \<lparr>stdin = [], stdout = [], disk = []\<rparr>)
         \<and> snd (Render example (example_renderer [])
                  (if ''in.tmpl'' = [] then ''stdin'' else ''in.tmpl'') []) =
             Some (ErrorString ''open in.tmpl: no such file or directory''))"
    by (simp add: example_defs)
  show ?thesis
    using FileRender_failure_no_write [OF render_fails] FileRender_failure_no_write [OF read_fails]
    by simp
qed

end
